theory Spec2Isabelle
  imports Complex_Main "HOL-Library.Word"
begin

section \<open>Double-precision values\<close>

text \<open>
  The weighting code computes in C++ \<open>double\<close>. A \<open>double\<close> is either a finite number,
  one of the two infinities, or a NaN, and the code under study reaches all of them
  (it divides by lengths that may be zero and takes logarithms of values that may be zero).
  The special values are therefore part of the model, with the IEEE 754 rules for them.
  On finite values the arithmetic is exact: rounding and overflow are not modelled, and
  there is a single zero (every divisor in the code is a converted unsigned count or a
  positive constant, so a negative zero never reaches a division). Where a result
  depends on the range of a \<open>double\<close>, it is stated with explicit bounds on the
  values of the computation.
\<close>

datatype dbl = Fin real | PInf | MInf | NaN

fun dneg :: "dbl \<Rightarrow> dbl" where
  "dneg (Fin x) = Fin (- x)"
| "dneg PInf = MInf"
| "dneg MInf = PInf"
| "dneg NaN = NaN"

fun dadd :: "dbl \<Rightarrow> dbl \<Rightarrow> dbl" where
  "dadd NaN _ = NaN"
| "dadd _ NaN = NaN"
| "dadd (Fin x) (Fin y) = Fin (x + y)"
| "dadd PInf MInf = NaN"
| "dadd MInf PInf = NaN"
| "dadd PInf _ = PInf"
| "dadd _ PInf = PInf"
| "dadd MInf _ = MInf"
| "dadd _ MInf = MInf"

definition dsub :: "dbl \<Rightarrow> dbl \<Rightarrow> dbl" where
  "dsub a b = dadd a (dneg b)"

fun dmul :: "dbl \<Rightarrow> dbl \<Rightarrow> dbl" where
  "dmul NaN _ = NaN"
| "dmul _ NaN = NaN"
| "dmul (Fin x) (Fin y) = Fin (x * y)"
| "dmul (Fin x) PInf = (if x = 0 then NaN else if 0 < x then PInf else MInf)"
| "dmul (Fin x) MInf = (if x = 0 then NaN else if 0 < x then MInf else PInf)"
| "dmul PInf (Fin y) = (if y = 0 then NaN else if 0 < y then PInf else MInf)"
| "dmul MInf (Fin y) = (if y = 0 then NaN else if 0 < y then MInf else PInf)"
| "dmul PInf PInf = PInf"
| "dmul PInf MInf = MInf"
| "dmul MInf PInf = MInf"
| "dmul MInf MInf = PInf"

fun ddiv :: "dbl \<Rightarrow> dbl \<Rightarrow> dbl" where
  "ddiv NaN _ = NaN"
| "ddiv _ NaN = NaN"
| "ddiv (Fin x) (Fin y) =
     (if y = 0 then (if x = 0 then NaN else if 0 < x then PInf else MInf)
      else Fin (x / y))"
| "ddiv (Fin x) PInf = Fin 0"
| "ddiv (Fin x) MInf = Fin 0"
| "ddiv PInf (Fin y) = (if 0 \<le> y then PInf else MInf)"
| "ddiv MInf (Fin y) = (if 0 \<le> y then MInf else PInf)"
| "ddiv PInf PInf = NaN"
| "ddiv PInf MInf = NaN"
| "ddiv MInf PInf = NaN"
| "ddiv MInf MInf = NaN"

text \<open>\<open>log2\<close> of the C library: minus infinity at zero, NaN below zero.\<close>

fun dlog2 :: "dbl \<Rightarrow> dbl" where
  "dlog2 (Fin x) = (if 0 < x then Fin (log 2 x) else if x = 0 then MInf else NaN)"
| "dlog2 PInf = PInf"
| "dlog2 MInf = NaN"
| "dlog2 NaN = NaN"

text \<open>Comparisons: every ordered comparison with a NaN is false.\<close>

fun dlt :: "dbl \<Rightarrow> dbl \<Rightarrow> bool" where
  "dlt NaN _ = False"
| "dlt _ NaN = False"
| "dlt (Fin x) (Fin y) = (x < y)"
| "dlt (Fin x) PInf = True"
| "dlt (Fin x) MInf = False"
| "dlt PInf _ = False"
| "dlt MInf (Fin y) = True"
| "dlt MInf PInf = True"
| "dlt MInf MInf = False"

fun dle :: "dbl \<Rightarrow> dbl \<Rightarrow> bool" where
  "dle NaN _ = False"
| "dle _ NaN = False"
| "dle (Fin x) (Fin y) = (x \<le> y)"
| "dle (Fin x) PInf = True"
| "dle (Fin x) MInf = False"
| "dle PInf (Fin y) = False"
| "dle PInf PInf = True"
| "dle PInf MInf = False"
| "dle MInf _ = True"

fun deq :: "dbl \<Rightarrow> dbl \<Rightarrow> bool" where
  "deq NaN _ = False"
| "deq _ NaN = False"
| "deq a b = (a = b)"

text \<open>\<open>std::min(a, b)\<close> is \<open>(b < a) ? b : a\<close>.\<close>

definition dmin :: "dbl \<Rightarrow> dbl \<Rightarrow> dbl" where
  "dmin a b = (if dlt b a then b else a)"

text \<open>
  \<open>Xapian::termcount\<close> and \<open>Xapian::doccount\<close> are unsigned 32-bit counts; their
  subtraction wraps. Conversion to \<open>double\<close> is exact.
\<close>

type_synonym termcount = "32 word"
type_synonym doccount = "32 word"

definition of_count :: "32 word \<Rightarrow> dbl" where
  "of_count n = Fin (real (unat n))"

section \<open>The DLH weighting scheme (dlhweight.cc)\<close>

text \<open>
  The statistics that \<open>DLHWeight::init\<close> reads through the getters of its base class.
  The base class is declared in \<open>xapian/weight.h\<close>, which is not part of the sources at
  hand, so the values the getters return are a parameter of \<open>init\<close>.
\<close>

record term_stats =
  get_collection_size :: doccount
  get_collection_freq :: termcount
  get_average_length :: dbl
  get_wdf_upper_bound :: termcount
  get_doclength_upper_bound :: termcount
  get_wqf :: termcount

text \<open>The data members of a \<open>DLHWeight\<close> object that the methods read and write.\<close>

record DLHWeight =
  log_constant :: dbl
  wqf_product_factor :: dbl
  upper_bound :: dbl

text \<open>
  \<open>DLHWeight::init(factor)\<close>. The object before the call is the last argument: when
  the wdf upper bound is zero the method assigns \<open>upper_bound\<close> only and returns, so
  the other two members keep whatever they held.
\<close>

definition init :: "term_stats \<Rightarrow> dbl \<Rightarrow> DLHWeight \<Rightarrow> DLHWeight" where
  "init st factor w =
     (let wdf_upper = of_count (get_wdf_upper_bound st) in
      if deq wdf_upper (Fin 0) then w\<lparr>upper_bound := Fin 0\<rparr>
      else
        let wdf_lower = Fin 1;
            len_upper = of_count (get_doclength_upper_bound st);
            min_wdf_to_len = ddiv wdf_lower len_upper;
            N = of_count (get_collection_size st);
            F = of_count (get_collection_freq st);
            lc = ddiv (dmul (get_average_length st) N) F;
            wpf = dmul (of_count (get_wqf st)) factor;
            wdf_var = dmin wdf_upper (ddiv len_upper (Fin 2));
            max_product_1 = dmul wdf_var (dsub (Fin 1) (ddiv wdf_var len_upper));
            max_product_2 = dmul wdf_upper (dsub (Fin 1) min_wdf_to_len);
            max_product = dmin max_product_1 max_product_2;
            ub = dadd
                   (dadd
                      (ddiv (dmul wdf_upper (dlog2 lc)) (dadd wdf_upper (Fin (1/2))))
                      (ddiv (dmul (dsub len_upper wdf_lower)
                                  (dlog2 (dsub (Fin 1) min_wdf_to_len)))
                            (dadd wdf_lower (Fin (1/2)))))
                   (ddiv (dmul (Fin (1/2))
                               (dlog2 (dmul (dmul (Fin 2) (Fin pi)) max_product)))
                         (dadd wdf_lower (Fin (1/2))))
        in \<lparr>log_constant = lc, wqf_product_factor = wpf,
            upper_bound = (if dlt ub (Fin 0) then Fin 0 else dmul ub wpf)\<rparr>)"

definition name :: "string" where
  "name = ''Xapian::DLHWeight''"

definition serialise :: "DLHWeight \<Rightarrow> string" where
  "serialise w = []"

datatype error = SerialisationError string

text \<open>
  \<open>DLHWeight::unserialise(s)\<close> and \<open>clone()\<close> return \<open>new DLHWeight()\<close>. The
  constructor is in the absent header; the object it yields is the parameter \<open>fresh\<close>.
\<close>

definition unserialise :: "DLHWeight \<Rightarrow> string \<Rightarrow> error + DLHWeight" where
  "unserialise fresh s =
     (if s \<noteq> [] then Inl (SerialisationError ''Extra data in DLHWeight::unserialise()'')
      else Inr fresh)"

definition clone :: "DLHWeight \<Rightarrow> DLHWeight" where
  "clone fresh = fresh"

text \<open>
  The sum of the three logarithmic terms, \<open>wt\<close> in \<open>get_sumpart\<close>. The constant
  \<open>M_PI\<close> is taken as \<open>pi\<close>.
\<close>

definition sumpart_wt :: "DLHWeight \<Rightarrow> termcount \<Rightarrow> termcount \<Rightarrow> dbl" where
  "sumpart_wt w wdf len =
     (let wdf_to_len = ddiv (of_count wdf) (of_count len);
          one_minus_wdf_to_len = dsub (Fin 1) wdf_to_len
      in dadd
           (dadd (dmul (of_count wdf) (dlog2 (dmul wdf_to_len (log_constant w))))
                 (dmul (of_count (len - wdf)) (dlog2 one_minus_wdf_to_len)))
           (dmul (Fin (1/2))
                 (dlog2 (dmul (dmul (dmul (Fin 2) (Fin pi)) (of_count wdf))
                              one_minus_wdf_to_len))))"

definition get_sumpart ::
  "DLHWeight \<Rightarrow> termcount \<Rightarrow> termcount \<Rightarrow> termcount \<Rightarrow> dbl" where
  "get_sumpart w wdf len uniq =
     (if wdf = 0 then Fin 0
      else let wt = sumpart_wt w wdf len in
        if dle wt (Fin 0) then Fin 0
        else ddiv (dmul (wqf_product_factor w) wt) (dadd (of_count wdf) (Fin (1/2))))"

definition get_maxpart :: "DLHWeight \<Rightarrow> dbl" where
  "get_maxpart w = upper_bound w"

definition get_sumextra :: "DLHWeight \<Rightarrow> termcount \<Rightarrow> termcount \<Rightarrow> dbl" where
  "get_sumextra w len uniq = Fin 0"

definition get_maxextra :: "DLHWeight \<Rightarrow> dbl" where
  "get_maxextra w = Fin 0"

text \<open>
  The arguments of the three logarithms of \<open>get_sumpart\<close> and the divisors of its two
  divisions, in the order in which the code evaluates them.
\<close>

definition sumpart_log_args :: "DLHWeight \<Rightarrow> termcount \<Rightarrow> termcount \<Rightarrow> dbl list" where
  "sumpart_log_args w wdf len =
     (let wdf_to_len = ddiv (of_count wdf) (of_count len);
          one_minus_wdf_to_len = dsub (Fin 1) wdf_to_len
      in [dmul wdf_to_len (log_constant w),
          one_minus_wdf_to_len,
          dmul (dmul (dmul (Fin 2) (Fin pi)) (of_count wdf)) one_minus_wdf_to_len])"



section \<open>The closed form of the specification\<close>

text \<open>
  The DLH formula as the specification writes it, from the term statistics directly:
  \<open>wt = wdf * log2(wdf/len * N/F*avglen) + (len - wdf) * log2(1 - wdf/len)
        + 0.5 * log2(2 * pi * wdf * (1 - wdf/len))\<close>
  and the contribution \<open>(wqf * factor) * wt / (wdf + 0.5)\<close>. Here \<open>len - wdf\<close> is the
  difference of the two numbers, not the wrapping difference of the counts.
\<close>

definition closed_form_wt :: "term_stats \<Rightarrow> termcount \<Rightarrow> termcount \<Rightarrow> dbl" where
  "closed_form_wt st wdf len =
     (let w = of_count wdf; l = of_count len;
          N = of_count (get_collection_size st); F = of_count (get_collection_freq st);
          avglen = get_average_length st
      in dadd
           (dadd (dmul w (dlog2 (dmul (ddiv w l) (dmul (ddiv N F) avglen))))
                 (dmul (dsub l w) (dlog2 (dsub (Fin 1) (ddiv w l)))))
           (dmul (Fin (1/2))
                 (dlog2 (dmul (dmul (dmul (Fin 2) (Fin pi)) w) (dsub (Fin 1) (ddiv w l))))))"

definition closed_form_score ::
  "term_stats \<Rightarrow> dbl \<Rightarrow> termcount \<Rightarrow> termcount \<Rightarrow> dbl" where
  "closed_form_score st factor wdf len =
     ddiv (dmul (dmul (of_count (get_wqf st)) factor) (closed_form_wt st wdf len))
          (dadd (of_count wdf) (Fin (1/2)))"

section \<open>Concrete inputs\<close>

text \<open>
  The statistics of the end-to-end scenario: 1000 documents of average length 20, a term
  with 50 occurrences, at most 4 of them in one document, no document longer than 15.
\<close>

definition example_stats :: term_stats where
  "example_stats = \<lparr>get_collection_size = 1000, get_collection_freq = 50,
     get_average_length = Fin 20, get_wdf_upper_bound = 4,
     get_doclength_upper_bound = 15, get_wqf = 1\<rparr>"

text \<open>The value of \<open>wt\<close> for the posting \<open>wdf = 4\<close>, \<open>len = 15\<close> of that term.\<close>

definition example_wt :: real where
  "example_wt = 4 * log 2 (4 / 15 * (1000 / 50 * 20)) + (15 - 4) * log 2 (1 - 4 / 15)
                + 1 / 2 * log 2 (2 * pi * 4 * (1 - 4 / 15))"

text \<open>The bound that \<open>init\<close> computes from these statistics, with \<open>wqf = 1\<close> and factor 1.\<close>

definition example_bound :: real where
  "example_bound = 4 * log 2 400 / (4 + 1 / 2) + (15 - 1) * log 2 (1 - 1 / 15) / (1 + 1 / 2)
                   + 1 / 2 * log 2 (2 * pi * (4 * (1 - 4 / 15))) / (1 + 1 / 2)"

text \<open>A database of one document that holds one occurrence of one term.\<close>

definition one_doc_stats :: term_stats where
  "one_doc_stats = \<lparr>get_collection_size = 1, get_collection_freq = 1,
     get_average_length = Fin 1, get_wdf_upper_bound = 1,
     get_doclength_upper_bound = 1, get_wqf = 1\<rparr>"

text \<open>A term that occurs nowhere in the same collection as \<open>example_stats\<close>.\<close>

definition absent_term_stats :: term_stats where
  "absent_term_stats = \<lparr>get_collection_size = 1000, get_collection_freq = 0,
     get_average_length = Fin 20, get_wdf_upper_bound = 0,
     get_doclength_upper_bound = 15, get_wqf = 1\<rparr>"

text \<open>
  Two objects on which \<open>init\<close> has not run. Their members were never assigned, so they
  hold whatever the allocation held: zeros in one, NaNs in the other.
\<close>

definition blank :: DLHWeight where
  "blank = \<lparr>log_constant = Fin 0, wqf_product_factor = Fin 0, upper_bound = Fin 0\<rparr>"

definition garbage :: DLHWeight where
  "garbage = \<lparr>log_constant = NaN, wqf_product_factor = NaN, upper_bound = NaN\<rparr>"


section \<open>Auxiliary facts\<close>

declare of_nat_unat [simp del]

lemma dadd_NaN_right [simp]: "dadd a NaN = NaN"
  by (cases a) simp_all

lemma dmul_NaN_right [simp]: "dmul a NaN = NaN"
  by (cases a) simp_all

lemma ddiv_NaN_right [simp]: "ddiv a NaN = NaN"
  by (cases a) simp_all

lemma of_count_eq_zero [simp]: "of_count n = Fin 0 \<longleftrightarrow> n = 0"
  by (simp add: of_count_def unsigned_eq_0_iff)

lemma deq_of_count_zero [simp]: "deq (of_count n) (Fin 0) \<longleftrightarrow> n = 0"
  by (simp add: of_count_def unsigned_eq_0_iff)

lemma unat_real_pos: "n \<noteq> 0 \<Longrightarrow> 0 < real (unat n)"
  by (simp add: unat_gt_0)

subsection \<open>The two paths of \<open>init\<close>\<close>

lemma init_early:
  "get_wdf_upper_bound st = 0 \<Longrightarrow> init st factor w = w\<lparr>upper_bound := Fin 0\<rparr>"
  by (simp add: init_def)

lemma init_log_constant:
  "get_wdf_upper_bound st \<noteq> 0 \<Longrightarrow>
   log_constant (init st factor w) =
     ddiv (dmul (get_average_length st) (of_count (get_collection_size st)))
          (of_count (get_collection_freq st))"
  by (simp add: init_def Let_def)

lemma init_wqf_product_factor:
  "get_wdf_upper_bound st \<noteq> 0 \<Longrightarrow>
   wqf_product_factor (init st factor w) = dmul (of_count (get_wqf st)) factor"
  by (simp add: init_def Let_def)

lemma init_overwrites:
  "get_wdf_upper_bound st \<noteq> 0 \<Longrightarrow> init st factor w = init st factor w'"
  by (simp add: init_def Let_def)

subsection \<open>A document that consists of one term only\<close>

lemma sumpart_wt_wdf_eq_len: "wdf \<noteq> 0 \<Longrightarrow> sumpart_wt w wdf wdf = NaN"
  by (simp add: sumpart_wt_def of_count_def dsub_def unsigned_eq_0_iff)

lemma get_sumpart_wdf_eq_len: "wdf \<noteq> 0 \<Longrightarrow> get_sumpart w wdf wdf uniq = NaN"
  by (simp add: get_sumpart_def sumpart_wt_wdf_eq_len)

subsection \<open>The code's \<open>wt\<close> and the closed form\<close>

lemma log_constant_regroup:
  "ddiv (dmul a (of_count N)) (of_count F) = dmul (ddiv (of_count N) (of_count F)) a"
  by (cases a) (auto simp add: of_count_def zero_less_mult_iff mult_less_0_iff)

lemma of_count_sub:
  "wdf \<le> len \<Longrightarrow> of_count (len - wdf) = dsub (of_count len) (of_count wdf)"
  by (simp add: of_count_def dsub_def unat_sub word_le_nat_alt)

lemma log_one_minus_NaN:
  assumes "len < wdf"
  shows "dlog2 (dsub (Fin 1) (ddiv (of_count wdf) (of_count len))) = NaN"
proof (cases "len = 0")
  case True
  from assms True have "wdf \<noteq> 0" by auto
  then have "0 < real (unat wdf)" by (rule unat_real_pos)
  with True show ?thesis by (simp add: of_count_def dsub_def)
next
  case False
  then have l: "0 < real (unat len)" by (rule unat_real_pos)
  from assms have "real (unat len) < real (unat wdf)" by (simp add: word_less_nat_alt)
  with l have "1 < real (unat wdf) / real (unat len)" by simp
  with l show ?thesis by (simp add: of_count_def dsub_def)
qed

lemma sumpart_wt_closed_form:
  assumes "get_wdf_upper_bound st \<noteq> 0"
  shows "sumpart_wt (init st factor w) wdf len = closed_form_wt st wdf len"
proof (cases "wdf \<le> len")
  case True
  then show ?thesis
    by (simp add: sumpart_wt_def closed_form_wt_def Let_def init_log_constant [OF assms]
        log_constant_regroup of_count_sub)
next
  case False
  then have "len < wdf" by simp
  then show ?thesis
    by (simp add: sumpart_wt_def closed_form_wt_def Let_def log_one_minus_NaN)
qed

subsection \<open>Inside the domain of the formula\<close>

lemma wt_real:
  fixes x l c d :: real
  assumes "0 < x" and "x < l" and "0 < c"
  shows "dadd
           (dadd (dmul (Fin x) (dlog2 (dmul (ddiv (Fin x) (Fin l)) (Fin c))))
                 (dmul (Fin d) (dlog2 (dsub (Fin 1) (ddiv (Fin x) (Fin l))))))
           (dmul (Fin (1/2))
                 (dlog2 (dmul (dmul (dmul (Fin 2) (Fin pi)) (Fin x))
                              (dsub (Fin 1) (ddiv (Fin x) (Fin l))))))
         = Fin (x * log 2 (x / l * c) + d * log 2 (1 - x / l) +
                1/2 * log 2 (2 * pi * x * (1 - x / l)))"
proof -
  from assms have l: "0 < l" by linarith
  with assms have p0: "0 < x / l" and p1: "x / l < 1" by simp_all
  from p0 assms(3) have a1: "0 < x / l * c" by (rule mult_pos_pos)
  from p1 have a2: "0 < 1 - x / l" by simp
  have "0 < 2 * pi * x" using assms(1) by simp
  then have a3: "0 < 2 * pi * x * (1 - x / l)" using a2 by (rule mult_pos_pos)
  from l have l0: "l \<noteq> 0" by simp
  have e1: "ddiv (Fin x) (Fin l) = Fin (x / l)" using l0 by simp
  have e2: "dsub (Fin 1) (Fin (x / l)) = Fin (1 - x / l)" by (simp add: dsub_def)
  have e3: "dlog2 (dmul (Fin (x / l)) (Fin c)) = Fin (log 2 (x / l * c))" using a1 by simp
  have e4: "dlog2 (Fin (1 - x / l)) = Fin (log 2 (1 - x / l))" using a2 by simp
  have e5: "dlog2 (dmul (dmul (dmul (Fin 2) (Fin pi)) (Fin x)) (Fin (1 - x / l)))
            = Fin (log 2 (2 * pi * x * (1 - x / l)))" using a3 by simp
  show ?thesis unfolding e1 e2 e3 e4 e5 by simp
qed

lemma sumpart_wt_finite:
  assumes "wdf \<noteq> 0" and "wdf < len" and "log_constant w = Fin c" and "0 < c"
  shows "sumpart_wt w wdf len =
     Fin (real (unat wdf) * log 2 (real (unat wdf) / real (unat len) * c) +
          real (unat (len - wdf)) * log 2 (1 - real (unat wdf) / real (unat len)) +
          1/2 * log 2 (2 * pi * real (unat wdf) * (1 - real (unat wdf) / real (unat len))))"
proof -
  have w: "0 < real (unat wdf)" using assms(1) by (rule unat_real_pos)
  have lt: "real (unat wdf) < real (unat len)"
    using assms(2) by (simp add: word_less_nat_alt)
  show ?thesis
    unfolding sumpart_wt_def of_count_def Let_def assms(3)
    using w lt assms(4) by (rule wt_real)
qed

lemma sumpart_wt_log_args:
  "sumpart_wt w wdf len =
     dadd (dadd (dmul (of_count wdf) (dlog2 (sumpart_log_args w wdf len ! 0)))
                (dmul (of_count (len - wdf)) (dlog2 (sumpart_log_args w wdf len ! 1))))
          (dmul (Fin (1/2)) (dlog2 (sumpart_log_args w wdf len ! 2)))"
  by (simp add: sumpart_wt_def sumpart_log_args_def Let_def)

subsection \<open>Magnitudes\<close>










subsection \<open>The posting \<open>wdf = 4\<close>, \<open>len = 15\<close> of the example\<close>

lemma example_wt_pos: "0 < example_wt"
proof -
  have a: "6 \<le> log 2 (4 / 15 * (1000 / 50 * 20))" by (simp add: le_log_iff)
  have b: "- 1 \<le> log 2 (1 - 4 / 15)" by (simp add: le_log_iff powr_minus)
  have "2 \<le> pi" by (rule pi_ge_two)
  then have "1 \<le> 2 * pi * 4 * (1 - 4 / 15)" by simp
  then have c: "0 \<le> log 2 (2 * pi * 4 * (1 - 4 / 15))" by simp
  have lin: "0 < 4 * A + (15 - 4) * B + 1 / 2 * C"
    if "6 \<le> A" and "- 1 \<le> B" and "0 \<le> C" for A B C :: real
    using that by simp
  from a b c show ?thesis unfolding example_wt_def by (rule lin)
qed

lemma example_init_members:
  "log_constant (init example_stats (Fin 1) w) = Fin 400"
  "wqf_product_factor (init example_stats (Fin 1) w) = Fin 1"
  by (simp_all add: init_def example_stats_def of_count_def Let_def)

lemma example_sumpart_wt:
  "log_constant w = Fin 400 \<Longrightarrow> sumpart_wt w 4 15 = Fin example_wt"
  using sumpart_wt_finite [of 4 15 w 400] by (simp add: example_wt_def)

lemma example_get_sumpart:
  assumes "log_constant w = Fin 400" and "wqf_product_factor w = Fin 1"
  shows "get_sumpart w 4 15 uniq = Fin (example_wt / (9 / 2))"
  using example_wt_pos
  by (simp add: get_sumpart_def example_sumpart_wt [OF assms(1)] assms(2) of_count_def)

subsection \<open>The bound of the example\<close>

lemma example_bound_pos: "0 < example_bound"
proof -
  have a: "8 \<le> log 2 400" by (simp add: le_log_iff)
  have "- 1 \<le> log 2 (196 / 225)" by (simp add: le_log_iff powr_minus)
  moreover have "log 2 (196 / 225) = 2 * log 2 (1 - 1 / 15)"
    using log_nat_power [of "14 / 15" 2 2] by (simp add: power2_eq_square)
  ultimately have b: "- (1 / 2) \<le> log 2 (1 - 1 / 15)" by simp
  have "2 \<le> pi" by (rule pi_ge_two)
  then have "1 \<le> 2 * pi * (4 * (1 - 4 / 15))" by simp
  then have c: "0 \<le> log 2 (2 * pi * (4 * (1 - 4 / 15)))" by simp
  have lin: "0 < 4 * A / (4 + 1 / 2) + (15 - 1) * B / (1 + 1 / 2) + 1 / 2 * C / (1 + 1 / 2)"
    if "8 \<le> A" and "- (1 / 2) \<le> B" and "0 \<le> C" for A B C :: real
    using that by simp
  from a b c show ?thesis unfolding example_bound_def by (rule lin)
qed

lemma example_get_maxpart:
  "get_maxpart (init example_stats (Fin 1) w) = Fin example_bound"
proof -
  have "1 < 2 * pi * (4 * (1 - 4 / 15))" using pi_ge_two by simp
  then have "0 < pi * 88 / 15" by simp
  then show ?thesis
    using example_bound_pos
    by (simp add: get_maxpart_def init_def example_stats_def of_count_def dsub_def dmin_def
        Let_def example_bound_def)
qed

section \<open>Results\<close>

subsection \<open>The upper bound\<close>

text \<open>
  C1. The claim: for every posting with \<open>1 \<le> wdf \<le> wdf_upper\<close> and
  \<open>wdf \<le> len \<le> len_upper\<close>, \<open>get_sumpart(wdf, len, _) \<le> get_maxpart()\<close>.
  The posting \<open>wdf = len = 4\<close> is within the bounds of \<open>example_stats\<close>, and there the
  code computes \<open>0 * log2(0)\<close>: the bound is the finite number \<open>example_bound\<close>, and
  the score is a NaN, which is not below any bound.
\<close>

theorem get_sumpart_full_document_exceeds_bound:
  "(1::termcount) \<le> 4 \<and> 4 \<le> get_wdf_upper_bound example_stats \<and>
   (4::termcount) \<le> 4 \<and> 4 \<le> get_doclength_upper_bound example_stats \<and>
   get_maxpart (init example_stats (Fin 1) w) = Fin example_bound \<and>
   get_sumpart (init example_stats (Fin 1) w) 4 4 uniq = NaN \<and>
   \<not> dle (get_sumpart (init example_stats (Fin 1) w) 4 4 uniq)
          (get_maxpart (init example_stats (Fin 1) w))"
  by (simp add: get_sumpart_wdf_eq_len example_get_maxpart) (simp add: example_stats_def)

subsection \<open>Non-negative scores\<close>

text \<open>
  C2. The claim: for every input the value of \<open>get_sumpart\<close> is at least 0.0, a negative
  \<open>wt\<close> being clamped. The clamp \<open>wt <= 0.0\<close> lets a NaN through: for the posting
  \<open>wdf = len = 1\<close> the result is a NaN, and \<open>0.0 <= NaN\<close> is false.
\<close>

theorem get_sumpart_full_document_not_clamped:
  "get_sumpart (init example_stats (Fin 1) w) 1 1 uniq = NaN \<and>
   \<not> dle (Fin 0) (get_sumpart (init example_stats (Fin 1) w) 1 1 uniq)"
  by (simp add: get_sumpart_wdf_eq_len)

subsection \<open>Absent terms\<close>

text \<open>
  C3. For every object, every \<open>len\<close> and every third argument,
  \<open>get_sumpart(0, len, _)\<close> returns exactly 0.0.
\<close>

theorem get_sumpart_wdf_zero: "get_sumpart w 0 len uniq = Fin 0"
  by (simp add: get_sumpart_def)

subsection \<open>The closed form\<close>

text \<open>
  C4. For every posting with \<open>wdf \<ge> 1\<close> of a term (so \<open>wdf\<close> is within the term's
  wdf upper bound) on an object initialised from the statistics and the factor, whenever
  the closed-form \<open>wt\<close> is positive the score is the closed-form contribution
  \<open>(wqf * factor) * wt / (wdf + 0.5)\<close>.
\<close>

theorem get_sumpart_closed_form:
  assumes "wdf \<noteq> 0" and "wdf \<le> get_wdf_upper_bound st"
    and "dlt (Fin 0) (closed_form_wt st wdf len)"
  shows "get_sumpart (init st factor w) wdf len uniq = closed_form_score st factor wdf len"
proof -
  from assms(1,2) have ub: "get_wdf_upper_bound st \<noteq> 0" by auto
  from assms(3) have "\<not> dle (closed_form_wt st wdf len) (Fin 0)"
    by (cases "closed_form_wt st wdf len") simp_all
  with assms(1) show ?thesis
    by (simp add: get_sumpart_def closed_form_score_def sumpart_wt_closed_form [OF ub]
        init_wqf_product_factor [OF ub])
qed

text \<open>
  The scenario \<open>N = 1000\<close>, \<open>F = 50\<close>, average length 20, \<open>wdf = 4\<close>, \<open>len = 15\<close>
  (with \<open>wqf = 1\<close> and factor 1): the closed-form \<open>wt\<close> is the positive number
  \<open>example_wt\<close>, and the score is \<open>example_wt / 4.5\<close>.
\<close>

theorem get_sumpart_closed_form_witness:
  "(4::termcount) \<noteq> 0 \<and> 4 \<le> get_wdf_upper_bound example_stats \<and>
   closed_form_wt example_stats 4 15 = Fin example_wt \<and>
   dlt (Fin 0) (closed_form_wt example_stats 4 15) \<and>
   get_sumpart (init example_stats (Fin 1) blank) 4 15 0
     = closed_form_score example_stats (Fin 1) 4 15 \<and>
   closed_form_score example_stats (Fin 1) 4 15 = Fin (example_wt / (9 / 2))"
proof -
  have h1: "(4::termcount) \<noteq> 0" by simp
  have h2: "4 \<le> get_wdf_upper_bound example_stats" by (simp add: example_stats_def)
  have ub: "get_wdf_upper_bound example_stats \<noteq> 0" by (simp add: example_stats_def)
  have wt: "closed_form_wt example_stats 4 15 = Fin example_wt"
    using sumpart_wt_closed_form [OF ub, of "Fin 1" blank 4 15]
    by (simp add: example_sumpart_wt example_init_members)
  have h3: "dlt (Fin 0) (closed_form_wt example_stats 4 15)"
    using example_wt_pos by (simp add: wt)
  have sc: "get_sumpart (init example_stats (Fin 1) blank) 4 15 0 = Fin (example_wt / (9 / 2))"
    by (rule example_get_sumpart) (rule example_init_members)+
  from get_sumpart_closed_form [OF h1 h2 h3, of "Fin 1" blank 0] h1 h2 wt h3 sc
  show ?thesis by simp
qed

subsection \<open>Serialisation\<close>

text \<open>
  C5. \<open>serialise\<close> always yields the empty string; \<open>unserialise\<close> succeeds on the
  empty string, fails with a \<open>SerialisationError\<close> on every non-empty one, and so
  succeeds exactly on the empty string.
\<close>

theorem unserialise_exactly_empty:
  "serialise w = [] \<and>
   unserialise fresh [] = Inr fresh \<and>
   unserialise fresh (c # cs)
     = Inl (SerialisationError ''Extra data in DLHWeight::unserialise()'') \<and>
   ((\<exists>w'. unserialise fresh s = Inr w') \<longleftrightarrow> s = [])"
  by (simp add: serialise_def unserialise_def)

text \<open>
  C6. Round trip: \<open>unserialise(serialise())\<close> succeeds, and after \<open>init\<close> with the
  same statistics and factor the new object scores every posting of the term (\<open>wdf\<close>
  within the term's wdf upper bound, any \<open>len\<close>, any third argument) as the original
  does, whatever the members of the two objects held before \<open>init\<close>.
\<close>

theorem roundtrip_get_sumpart:
  assumes "wdf \<le> get_wdf_upper_bound st"
  shows "unserialise fresh (serialise w) = Inr fresh \<and>
         get_sumpart (init st factor fresh) wdf len uniq
           = get_sumpart (init st factor w) wdf len uniq"
proof (cases "get_wdf_upper_bound st = 0")
  case True
  with assms have "wdf = 0" by simp
  then show ?thesis by (simp add: serialise_def unserialise_def get_sumpart_def)
next
  case False
  then show ?thesis
    using init_overwrites [OF False, of factor fresh w]
    by (simp add: serialise_def unserialise_def)
qed

theorem roundtrip_get_sumpart_witness:
  "4 \<le> get_wdf_upper_bound example_stats \<and>
   unserialise blank (serialise garbage) = Inr blank \<and>
   get_sumpart (init example_stats (Fin 1) blank) 4 15 0
     = get_sumpart (init example_stats (Fin 1) garbage) 4 15 0 \<and>
   get_sumpart (init example_stats (Fin 1) blank) 4 15 0 = Fin (example_wt / (9 / 2))"
proof -
  have h: "4 \<le> get_wdf_upper_bound example_stats" by (simp add: example_stats_def)
  have sc: "get_sumpart (init example_stats (Fin 1) blank) 4 15 0 = Fin (example_wt / (9 / 2))"
    by (rule example_get_sumpart) (rule example_init_members)+
  from roundtrip_get_sumpart [OF h, of blank garbage "Fin 1" 15 0] h sc
  show ?thesis by simp
qed

subsection \<open>A term that never occurs\<close>

text \<open>
  C7. When the term never occurs (its wdf upper bound is zero), \<open>init\<close> raises no
  error: it is a total function with no error result. Afterwards \<open>get_maxpart()\<close> is
  0.0 and every \<open>get_sumpart\<close> call for the term, whose \<open>wdf\<close> is within that bound,
  returns 0.0.
\<close>

theorem init_zero_wdf_bound:
  assumes "get_wdf_upper_bound st = 0" and "wdf \<le> get_wdf_upper_bound st"
  shows "get_maxpart (init st factor w) = Fin 0 \<and>
         get_sumpart (init st factor w) wdf len uniq = Fin 0"
proof -
  from assms have "wdf = 0" by simp
  then show ?thesis
    by (simp add: init_early [OF assms(1)] get_maxpart_def get_sumpart_def)
qed

theorem init_zero_wdf_bound_witness:
  "get_wdf_upper_bound absent_term_stats = 0 \<and>
   (0::termcount) \<le> get_wdf_upper_bound absent_term_stats \<and>
   get_maxpart (init absent_term_stats (Fin 1) garbage) = Fin 0 \<and>
   get_sumpart (init absent_term_stats (Fin 1) garbage) 0 15 0 = Fin 0"
proof -
  have h1: "get_wdf_upper_bound absent_term_stats = 0" by (simp add: absent_term_stats_def)
  have h2: "(0::termcount) \<le> get_wdf_upper_bound absent_term_stats" by simp
  from init_zero_wdf_bound [OF h1 h2, of "Fin 1" garbage 15 0] h1 h2
  show ?thesis by simp
qed

subsection \<open>Totality away from the boundary\<close>




subsection \<open>The sign of the bound\<close>

text \<open>
  C10. The claim: for every configuration of the statistics and every non-negative
  factor, \<open>get_maxpart()\<close> is non-negative after \<open>init\<close>, and \<open>get_maxextra\<close> and
  \<open>get_sumextra\<close> return 0. The last two hold. For a database of one document with
  one occurrence of one term the length upper bound is 1, \<open>init\<close> computes
  \<open>0 * log2(0)\<close>, the clamp \<open>upper_bound < 0.0\<close> lets the NaN through, and
  \<open>get_maxpart()\<close> is that NaN.
\<close>

theorem get_maxpart_one_document:
  "get_maxpart (init one_doc_stats (Fin 1) w) = NaN \<and>
   \<not> dle (Fin 0) (get_maxpart (init one_doc_stats (Fin 1) w)) \<and>
   get_maxextra w = Fin 0 \<and> get_sumextra w len uniq = Fin 0"
proof -
  have "get_maxpart (init one_doc_stats (Fin 1) w) = NaN"
    by (simp add: get_maxpart_def init_def one_doc_stats_def of_count_def dsub_def
        dmin_def Let_def)
  then show ?thesis by (simp add: get_maxextra_def get_sumextra_def)
qed

end
